theory Spec2Isabelle
  imports Main
begin

section \<open>Architectural Feedback Analyzer: the script \<open>app.py\<close>\<close>

text \<open>
  The program is one Streamlit script. Every interaction with the page runs the script from
  its first line to its last; only \<open>st.session_state\<close> survives from one run to the next.
  The model below follows the script block by block: each Python function is a function on
  an explicit state, and the top-level blocks are composed in \<open>script\<close> in source order.

  Strings are byte lists (UTF-8). Python's \<open>in\<close> and truthiness of a \<open>str\<close> give the same
  answers on the UTF-8 bytes as on the code points, and every needle of the script is ASCII.
\<close>

subsection \<open>Python's substring test\<close>

fun starts_with :: "string \<Rightarrow> string \<Rightarrow> bool" where
  "starts_with [] hay = True"
| "starts_with (c # cs) [] = False"
| "starts_with (c # cs) (h # hs) = (c = h \<and> starts_with cs hs)"

text \<open>\<open>str_in needle hay\<close> is Python's \<open>needle in hay\<close> on two strings.\<close>

fun str_in :: "string \<Rightarrow> string \<Rightarrow> bool" where
  "str_in needle [] = starts_with needle []"
| "str_in needle (h # hs) = (starts_with needle (h # hs) \<or> str_in needle hs)"

subsection \<open>The outside world\<close>

text \<open>A Python call either returns a value or raises an exception \<open>e\<close>; \<open>Raises\<close> carries \<open>str(e)\<close>.\<close>

datatype 'a outcome = Returns 'a | Raises string

text \<open>
  The hosted model handle. \<open>m n prompt\<close> is the outcome of
  \<open>ai_model.generate_content(prompt)\<close> followed by \<open>response.text\<close>, for the outbound request
  number \<open>n\<close> (counted from 0): the service may answer the same prompt differently each time.
\<close>

type_synonym model = "nat \<Rightarrow> string \<Rightarrow> string outcome"

record env =
  secrets :: "string outcome"
  connect :: "string \<Rightarrow> model outcome"

text \<open>
  \<open>secrets\<close> is \<open>st.secrets["GOOGLE_API_KEY"]\<close>; \<open>connect key\<close> is
  \<open>genai.configure(api_key=key)\<close> followed by \<open>genai.GenerativeModel('gemini-1.5-flash-latest')\<close>.
\<close>

text \<open>The elements the script puts on the page, in the order of the \<open>st.*\<close> calls.\<close>

datatype ui =
    Title string
  | Header string
  | Subheader string
  | Markdown string
  | Error string
  | Warning string
  | Success string
  | Spinner string
  | Text_area string
  | Button string

text \<open>
  \<open>ai_model\<close> is the module-level handle (\<open>None\<close> when initialisation failed),
  \<open>analysis_result\<close> is \<open>st.session_state['analysis_result']\<close> (an absent key is set to
  \<open>None\<close> at lines 123-124 before any read, so both are \<open>None\<close> here).
  Two logs record what the code does and are never read by it: \<open>gateway_calls\<close> holds the
  prompt of every call of \<open>get_ai_response\<close>, \<open>requests\<close> the prompt of every
  \<open>generate_content\<close> request, oldest first. \<open>page\<close> holds the elements drawn, oldest
  first; what a run draws is what it appends.
\<close>

record state =
  ai_model :: "model option"
  analysis_result :: "string option"
  gateway_calls :: "string list"
  requests :: "string list"
  page :: "ui list"

definition st :: "ui \<Rightarrow> state \<Rightarrow> state" where
  "st e s = s\<lparr>page := page s @ [e]\<rparr>"

subsection \<open>Fixed strings of the script\<close>

definition model_unavailable :: string where
  "model_unavailable = ''AI model not available.''"

definition response_error :: string where
  "response_error = ''Error getting AI response''"

definition no_text :: string where
  "no_text = ''No transcribed text to analyze.''"

definition no_case_studies :: string where
  "no_case_studies = ''Cannot generate case studies without a valid AI analysis.''"

definition no_prompts :: string where
  "no_prompts = ''Cannot generate critical thinking prompts without a valid AI analysis.''"

definition no_interpretation :: string where
  "no_interpretation = ''Cannot interpret abstract concepts without a valid AI analysis.''"

definition analysis_failed :: string where
  "analysis_failed = ''Analysis failed, cannot generate further outputs.''"

definition default_image_info :: string where
  "default_image_info = ''No specific image information provided.''"

text \<open>
  Messages, labels and spinner texts of the script. A label that starts with an emoji
  has it as its UTF-8 bytes.
\<close>

definition init_warning :: string where
  "init_warning = ''Please ensure your GOOGLE_API_KEY is set correctly in Streamlit Secrets.''"

definition init_error :: string where
  "init_error = ''Error initializing Google Generative AI model: ''"

definition key_missing :: string where
  "key_missing = ''Google API Key not found. Please set GOOGLE_API_KEY in Streamlit Secrets.''"

definition init_ok :: string where
  "init_ok = ''Google Generative AI model initialized successfully.''"

definition not_initialized :: string where
  "not_initialized = ''AI model not initialized. Cannot get response.''"

definition paste_label :: string where
  "paste_label = ''Paste your feedback here:''"

definition enter_header :: string where
  "enter_header = [CHR 0xF0, CHR 0x9F, CHR 0x93, CHR 0x9D] @ '' Enter Your Architectural Feedback''"

definition title_text :: string where
  "title_text = [CHR 0xF0, CHR 0x9F, CHR 0x93, CHR 0x90] @ '' Architectural Feedback Analyzer''"

definition analyze_label :: string where
  "analyze_label = [CHR 0xE2, CHR 0x9C, CHR 0xA8] @ '' Analyze Feedback''"

definition insights_header :: string where
  "insights_header = [CHR 0xF0, CHR 0x9F, CHR 0xA4, CHR 0x96] @ '' AI Analysis and Insights''"

definition analyzing :: string where
  "analyzing = ''Analyzing feedback...''"

definition case_studies_header :: string where
  "case_studies_header = [CHR 0xF0, CHR 0x9F, CHR 0x8F, CHR 0x9B, CHR 0xEF, CHR 0xB8, CHR 0x8F] @ '' Illustrated Case Studies''"

definition generating_case_studies :: string where
  "generating_case_studies = ''Generating case studies...''"

definition prompts_header :: string where
  "prompts_header = [CHR 0xF0, CHR 0x9F, CHR 0xA4, CHR 0x94] @ '' Critical Thinking Prompts''"

definition generating_prompts :: string where
  "generating_prompts = ''Generating prompts...''"

definition concepts_header :: string where
  "concepts_header = [CHR 0xF0, CHR 0x9F, CHR 0xA7, CHR 0xA0] @ '' Interpretations of Abstract Concepts''"

definition interpreting :: string where
  "interpreting = ''Interpreting concepts...''"

definition result_header :: string where
  "result_header = [CHR 0xF0, CHR 0x9F, CHR 0x93, CHR 0x8A] @ '' AI Analysis Result:''"

definition built_with :: string where
  "built_with = ''Built with Streamlit and Google Generative AI.''"

definition separator :: string where
  "separator = ''---''"

subsection \<open>Lines 6-20: configuring the client\<close>

definition init_failed :: "string \<Rightarrow> state \<Rightarrow> state" where
  "init_failed e s =
     (st (Warning init_warning)
        (st (Error (init_error @ e)) s))
     \<lparr>ai_model := None\<rparr>"

definition configure :: "env \<Rightarrow> state \<Rightarrow> state" where
  "configure w s =
     (case secrets w of
        Raises e \<Rightarrow> init_failed e s
      | Returns key \<Rightarrow>
          if key = [] then
            (st (Error key_missing) s)
            \<lparr>ai_model := None\<rparr>
          else
            (case connect w key of
               Raises e \<Rightarrow> init_failed e s
             | Returns m \<Rightarrow>
                 st (Success init_ok)
                   (s\<lparr>ai_model := Some m\<rparr>)))"

subsection \<open>Lines 23-33: the Gateway\<close>

definition get_ai_response :: "string \<Rightarrow> state \<Rightarrow> string \<times> state" where
  "get_ai_response prompt s0 =
     (let s = s0\<lparr>gateway_calls := gateway_calls s0 @ [prompt]\<rparr> in
      case ai_model s of
        None \<Rightarrow>
          (model_unavailable, st (Error not_initialized) s)
      | Some m \<Rightarrow>
          (let s' = s\<lparr>requests := requests s @ [prompt]\<rparr> in
           case m (length (requests s)) prompt of
             Returns text \<Rightarrow> (text, s')
           | Raises e \<Rightarrow>
               (response_error @ '': '' @ e, st (Error (response_error @ '': '' @ e)) s')))"

subsection \<open>Lines 36-106: the four stages\<close>

text \<open>
  A stage argument is \<open>None\<close> or a string, as the Python parameter may be. Python's
  \<open>not x\<close> holds of \<open>None\<close> and of the empty string, and \<open>or\<close> does not evaluate its
  right operand then.
\<close>

definition analysis_prompt :: "string \<Rightarrow> string \<Rightarrow> string" where
  \<open>analysis_prompt transcribed_text image_info =
     ''\<newline>    You are an AI assistant specializing in architectural feedback analysis.'' @
     ''\<newline>    You have received the following feedback from an instructor regarding a student's architectural work:'' @
     ''\<newline>\<newline>    "'' @ transcribed_text @ ''"'' @
     ''\<newline>\<newline>    The feedback is related to an architectural work described as:'' @
     ''\<newline>    "'' @ image_info @ ''"'' @
     ''\<newline>\<newline>    Please analyze this feedback in the context of architectural principles.'' @
     ''\<newline>    Identify key points, areas for improvement, and potential strengths mentioned in the feedback.'' @
     ''\<newline>    Provide a concise summary of the analysis.'' @
     ''\<newline>    ''\<close>

definition analyze_feedback :: "string option \<Rightarrow> string \<Rightarrow> state \<Rightarrow> string \<times> state" where
  "analyze_feedback transcribed_text image_info s =
     (case transcribed_text of
        None \<Rightarrow> (no_text, s)
      | Some t \<Rightarrow>
          if t = [] then (no_text, s)
          else get_ai_response (analysis_prompt t image_info) s)"

definition case_studies_prompt :: "string \<Rightarrow> string" where
  \<open>case_studies_prompt ai_analysis_text =
     ''\<newline>    Based on the following architectural feedback analysis:'' @
     ''\<newline>    "'' @ ai_analysis_text @ ''"'' @
     ''\<newline>\<newline>    Generate relevant illustrated case studies that exemplify the concepts discussed.'' @
     ''\<newline>    Focus on real-world examples or well-known architectural projects.'' @
     ''\<newline>    Provide brief explanations for each case study highlighting its relevance to the feedback analysis.'' @
     ''\<newline>    ''\<close>

definition generate_case_studies :: "string option \<Rightarrow> state \<Rightarrow> string \<times> state" where
  "generate_case_studies ai_analysis_text s =
     (case ai_analysis_text of
        None \<Rightarrow> (no_case_studies, s)
      | Some t \<Rightarrow>
          if t = [] \<or> str_in model_unavailable t then (no_case_studies, s)
          else get_ai_response (case_studies_prompt t) s)"

definition critical_thinking_prompt :: "string \<Rightarrow> string" where
  \<open>critical_thinking_prompt ai_analysis_text =
     ''\<newline>    Based on the following architectural feedback analysis:'' @
     ''\<newline>    "'' @ ai_analysis_text @ ''"'' @
     ''\<newline>\<newline>    Generate critical thinking prompts and brainstorming questions that can help a student deepen their understanding and explore alternative design solutions related to the feedback.'' @
     ''\<newline>    ''\<close>

definition generate_critical_thinking_prompts :: "string option \<Rightarrow> state \<Rightarrow> string \<times> state" where
  "generate_critical_thinking_prompts ai_analysis_text s =
     (case ai_analysis_text of
        None \<Rightarrow> (no_prompts, s)
      | Some t \<Rightarrow>
          if t = [] \<or> str_in model_unavailable t then (no_prompts, s)
          else get_ai_response (critical_thinking_prompt t) s)"

definition abstract_concepts_prompt :: "string \<Rightarrow> string" where
  \<open>abstract_concepts_prompt ai_analysis_text =
     ''\<newline>    Based on the following architectural feedback analysis:'' @
     ''\<newline>    "'' @ ai_analysis_text @ ''"'' @
     ''\<newline>\<newline>    Identify any abstract or complex architectural concepts mentioned or implied, and provide clear, simple interpretations and explanations to aid student understanding and decision-making.'' @
     ''\<newline>    ''\<close>

definition interpret_abstract_concepts :: "string option \<Rightarrow> state \<Rightarrow> string \<times> state" where
  "interpret_abstract_concepts ai_analysis_text s =
     (case ai_analysis_text of
        None \<Rightarrow> (no_interpretation, s)
      | Some t \<Rightarrow>
          if t = [] \<or> str_in model_unavailable t then (no_interpretation, s)
          else get_ai_response (abstract_concepts_prompt t) s)"

subsection \<open>Lines 109-165: the page\<close>

text \<open>
  One run of the script receives the value of the text area and whether the button was
  pressed in the interaction that started the run.
\<close>

record input =
  feedback_input :: string
  button :: bool

definition intro :: string where
  \<open>intro =
     ''\<newline>This application helps students analyze architectural feedback using AI.'' @
     ''\<newline>Enter your text feedback below, and the AI will provide a detailed analysis,'' @
     ''\<newline>relevant case studies, critical thinking prompts, and interpretations of abstract concepts.'' @
     ''\<newline>''\<close>

text \<open>Lines 109-120. \<open>st.set_page_config\<close> draws nothing and has no counterpart here.\<close>

definition page_layout :: "state \<Rightarrow> state" where
  "page_layout s =
     st (Text_area paste_label)
       (st (Header enter_header)
         (st (Markdown intro)
           (st (Title title_text) s)))"

text \<open>
  Lines 126-131: the button and its handler. \<open>analyze_feedback\<close> is called with one argument,
  so \<open>image_info\<close> takes its default.
\<close>

definition analyze_button :: "input \<Rightarrow> state \<Rightarrow> state" where
  "analyze_button inp s0 =
     (let s = st (Button analyze_label) s0 in
      if button inp then
        if feedback_input inp \<noteq> [] then
          (let s1 = st (Header insights_header) s;
               s2 = st (Spinner analyzing) s1;
               (analysis_text, s3) = analyze_feedback (Some (feedback_input inp)) default_image_info s2
           in s3\<lparr>analysis_result := Some analysis_text\<rparr>)
        else s
      else s)"

text \<open>Lines 140-159: the three later stages, each fed the first-stage text.\<close>

definition downstream :: "string \<Rightarrow> state \<Rightarrow> state" where
  "downstream analysis_text s0 =
     (let s1 = st (Markdown separator) s0;
          s2 = st (Subheader case_studies_header) s1;
          s3 = st (Spinner generating_case_studies) s2;
          (case_studies_output, s4) = generate_case_studies (Some analysis_text) s3;
          s5 = st (Markdown case_studies_output) s4;
          s6 = st (Markdown separator) s5;
          s7 = st (Subheader prompts_header) s6;
          s8 = st (Spinner generating_prompts) s7;
          (critical_thinking_output, s9) = generate_critical_thinking_prompts (Some analysis_text) s8;
          s10 = st (Markdown critical_thinking_output) s9;
          s11 = st (Markdown separator) s10;
          s12 = st (Subheader concepts_header) s11;
          s13 = st (Spinner interpreting) s12;
          (interpretations_output, s14) = interpret_abstract_concepts (Some analysis_text) s13
      in st (Markdown interpretations_output) s14)"

text \<open>Lines 134-161: showing the cached analysis and, when it is not a failure, the later stages.\<close>

definition display_results :: "state \<Rightarrow> state" where
  "display_results s0 =
     (case analysis_result s0 of
        None \<Rightarrow> s0
      | Some analysis_text \<Rightarrow>
          if analysis_text = [] then s0
          else
            (let s1 = st (Subheader result_header) s0;
                 s2 = st (Markdown analysis_text) s1
             in if \<not> str_in model_unavailable analysis_text \<and> \<not> str_in response_error analysis_text
                then downstream analysis_text s2
                else st (Error analysis_failed) s2))"

text \<open>Lines 164-165.\<close>

definition footer :: "state \<Rightarrow> state" where
  "footer s = st (Markdown built_with) (st (Markdown separator) s)"

text \<open>One run of the whole script, top to bottom.\<close>

definition script :: "env \<Rightarrow> input \<Rightarrow> state \<Rightarrow> state" where
  "script w inp s = footer (display_results (analyze_button inp (page_layout (configure w s))))"

text \<open>A browser session that has just been opened: nothing cached, nothing shown, nothing sent.\<close>

definition fresh :: state where
  "fresh = \<lparr>ai_model = None, analysis_result = None, gateway_calls = [], requests = [], page = []\<rparr>"

subsection \<open>Sample environments and inputs\<close>

text \<open>A service that always answers, and one whose request number \<open>k\<close> (from 0) fails.\<close>

definition steady :: model where
  "steady n prompt = Returns ''ok''"

definition failing_at :: "nat \<Rightarrow> model" where
  "failing_at k n prompt = (if n = k then Raises ''boom'' else Returns ''ok'')"

text \<open>A service whose answers have no text.\<close>

definition silent :: model where
  "silent n prompt = Returns []"

text \<open>A deployment with a credential and a reachable service, and one with no credential.\<close>

definition online :: "model \<Rightarrow> env" where
  "online m = \<lparr>secrets = Returns ''key'', connect = (\<lambda>key. Returns m)\<rparr>"

definition offline :: env where
  "offline = \<lparr>secrets = Raises ''GOOGLE_API_KEY'', connect = (\<lambda>key. Raises ''unreachable'')\<rparr>"

text \<open>Pressing the button with the text \<open>t\<close> in the text area.\<close>

definition submit :: "string \<Rightarrow> input" where
  "submit t = \<lparr>feedback_input = t, button = True\<rparr>"

text \<open>The messages of the \<open>st.error\<close> elements of a page.\<close>

fun errors :: "ui list \<Rightarrow> string list" where
  "errors [] = []"
| "errors (Error msg # es) = msg # errors es"
| "errors (e # es) = errors es"

subsection \<open>Lines 23-33 again: the Gateway with exceptions that escape\<close>

text \<open>
  \<open>get_ai_response\<close> above takes every exception of the model call to be an instance of
  \<open>Exception\<close> and every \<open>st.error\<close> call to return. Python promises neither. The clause at
  line 31 is \<open>except Exception\<close>, so an exception that is not an instance of \<open>Exception\<close>
  (\<open>KeyboardInterrupt\<close>, \<open>SystemExit\<close>, the script-control exceptions of Streamlit) passes
  through it; and the two \<open>st.error\<close> calls, at line 26 and inside the handler at line 32,
  are outside any \<open>try\<close>. The second model of the function keeps these paths.
\<close>

text \<open>
  A raised exception is an instance of \<open>Exception\<close> or it is not; both carry \<open>str(e)\<close>.
\<close>

datatype exc = Exception string | BaseException string

datatype 'a completion = Return 'a | Raise exc

text \<open>
  \<open>handle\<close> is \<open>ai_model\<close>: \<open>None\<close>, or what \<open>generate_content(prompt)\<close> followed by
  \<open>response.text\<close> does on this call. \<open>st_error msg\<close> is what \<open>st.error(msg)\<close> raises, \<open>None\<close>
  when it returns.
\<close>

definition get_ai_response_raising ::
  "(string \<Rightarrow> string completion) option \<Rightarrow> (string \<Rightarrow> exc option) \<Rightarrow> string \<Rightarrow> string completion"
where
  "get_ai_response_raising handle st_error prompt =
     (case handle of
        None \<Rightarrow>
          (case st_error not_initialized of
             Some x \<Rightarrow> Raise x
           | None \<Rightarrow> Return model_unavailable)
      | Some generate_content \<Rightarrow>
          (case generate_content prompt of
             Return answer \<Rightarrow> Return answer
           | Raise (Exception e) \<Rightarrow>
               (case st_error (response_error @ '': '' @ e) of
                  Some x \<Rightarrow> Raise x
                | None \<Rightarrow> Return (response_error @ '': '' @ e))
           | Raise (BaseException e) \<Rightarrow> Raise (BaseException e)))"

text \<open>
  The handle of a state, seen this way: the request the state is about to make, with
  every exception of the model an instance of \<open>Exception\<close>.
\<close>

definition handle_of :: "state \<Rightarrow> (string \<Rightarrow> string completion) option" where
  "handle_of s =
     (case ai_model s of
        None \<Rightarrow> None
      | Some m \<Rightarrow>
          Some (\<lambda>prompt. case m (length (requests s)) prompt of
                            Returns answer \<Rightarrow> Return answer
                          | Raises e \<Rightarrow> Raise (Exception e)))"

text \<open>Sample handles and sample behaviours of \<open>st.error\<close>.\<close>

definition answering :: "string \<Rightarrow> string \<Rightarrow> string completion" where
  "answering answer prompt = Return answer"

definition raising :: "exc \<Rightarrow> string \<Rightarrow> string completion" where
  "raising x prompt = Raise x"

definition quiet :: "string \<Rightarrow> exc option" where
  "quiet msg = None"

definition stopping :: "exc \<Rightarrow> string \<Rightarrow> exc option" where
  "stopping x msg = Some x"

section \<open>Facts about the blocks of the script\<close>

text \<open>\<open>str_in\<close> is the substring relation.\<close>

lemma starts_with_iff: "starts_with needle hay \<longleftrightarrow> (\<exists>ss. hay = needle @ ss)"
  by (induction needle hay rule: starts_with.induct) auto

lemma str_in_iff: "str_in needle hay \<longleftrightarrow> (\<exists>ps ss. hay = ps @ needle @ ss)"
proof (induction hay)
  case Nil
  show ?case by (simp add: starts_with_iff)
next
  case (Cons h hs)
  show ?case
  proof
    assume "str_in needle (h # hs)"
    then consider "starts_with needle (h # hs)" | "str_in needle hs" by auto
    then show "\<exists>ps ss. h # hs = ps @ needle @ ss"
    proof cases
      case 1
      then obtain ss where "h # hs = needle @ ss" by (auto simp: starts_with_iff)
      then have "h # hs = [] @ needle @ ss" by simp
      then show ?thesis by blast
    next
      case 2
      with Cons.IH obtain ps ss where "hs = ps @ needle @ ss" by blast
      then have "h # hs = (h # ps) @ needle @ ss" by simp
      then show ?thesis by blast
    qed
  next
    assume "\<exists>ps ss. h # hs = ps @ needle @ ss"
    then obtain ps ss where eq: "h # hs = ps @ needle @ ss" by blast
    show "str_in needle (h # hs)"
    proof (cases ps)
      case Nil
      with eq have "starts_with needle (h # hs)" by (auto simp: starts_with_iff)
      then show ?thesis by simp
    next
      case (Cons p ps')
      with eq have "hs = ps' @ needle @ ss" by simp
      with Cons.IH have "str_in needle hs" by blast
      then show ?thesis by simp
    qed
  qed
qed

lemma st_fields [simp]:
  "ai_model (st e s) = ai_model s"
  "analysis_result (st e s) = analysis_result s"
  "gateway_calls (st e s) = gateway_calls s"
  "requests (st e s) = requests s"
  "page (st e s) = page s @ [e]"
  by (simp_all add: st_def)

lemma gateway_fields:
  "gateway_calls (snd (get_ai_response p s)) = gateway_calls s @ [p]"
  "ai_model (snd (get_ai_response p s)) = ai_model s"
  "analysis_result (snd (get_ai_response p s)) = analysis_result s"
  "requests (snd (get_ai_response p s)) = (if ai_model s = None then requests s else requests s @ [p])"
  by (simp_all add: get_ai_response_def Let_def split: option.split outcome.split)

lemma stage_calls:
  assumes "t \<noteq> []" "\<not> str_in model_unavailable t"
  shows "generate_case_studies (Some t) s = get_ai_response (case_studies_prompt t) s"
    and "generate_critical_thinking_prompts (Some t) s = get_ai_response (critical_thinking_prompt t) s"
    and "interpret_abstract_concepts (Some t) s = get_ai_response (abstract_concepts_prompt t) s"
  using assms
  by (simp_all add: generate_case_studies_def generate_critical_thinking_prompts_def
      interpret_abstract_concepts_def)

lemma stage_refuses:
  assumes "t = [] \<or> str_in model_unavailable t"
  shows "generate_case_studies (Some t) s = (no_case_studies, s)"
    and "generate_critical_thinking_prompts (Some t) s = (no_prompts, s)"
    and "interpret_abstract_concepts (Some t) s = (no_interpretation, s)"
  using assms
  by (auto simp add: generate_case_studies_def generate_critical_thinking_prompts_def
      interpret_abstract_concepts_def)

lemma downstream_keeps:
  "ai_model (downstream t s) = ai_model s"
  "analysis_result (downstream t s) = analysis_result s"
  by (simp_all add: downstream_def Let_def split_beta generate_case_studies_def
      generate_critical_thinking_prompts_def interpret_abstract_concepts_def gateway_fields
      split: option.split)

lemma downstream_gateway:
  assumes "t \<noteq> []" "\<not> str_in model_unavailable t"
  shows "gateway_calls (downstream t s) =
         gateway_calls s @ [case_studies_prompt t, critical_thinking_prompt t, abstract_concepts_prompt t]"
  by (simp add: downstream_def Let_def split_beta stage_calls [OF assms] gateway_fields)

lemma downstream_requests:
  assumes "t \<noteq> []" "\<not> str_in model_unavailable t"
  shows "requests (downstream t s) =
         (if ai_model s = None then requests s
          else requests s @ [case_studies_prompt t, critical_thinking_prompt t, abstract_concepts_prompt t])"
  by (simp add: downstream_def Let_def split_beta stage_calls [OF assms] gateway_fields)

lemma sentinel_nonempty:
  "str_in model_unavailable t \<Longrightarrow> t \<noteq> []"
  "str_in response_error t \<Longrightarrow> t \<noteq> []"
  by (auto simp: model_unavailable_def response_error_def)

lemma display_fields:
  "ai_model (display_results s) = ai_model s"
  "analysis_result (display_results s) = analysis_result s"
  by (simp_all add: display_results_def Let_def downstream_keeps split: option.split)

lemma display_gateway:
  "gateway_calls (display_results s) =
     gateway_calls s @
     (case analysis_result s of
        None \<Rightarrow> []
      | Some t \<Rightarrow>
          if t = [] \<or> str_in model_unavailable t \<or> str_in response_error t then []
          else [case_studies_prompt t, critical_thinking_prompt t, abstract_concepts_prompt t])"
  by (simp add: display_results_def Let_def downstream_gateway split: option.split)

lemma configure_fields:
  "analysis_result (configure w s) = analysis_result s"
  "gateway_calls (configure w s) = gateway_calls s"
  "requests (configure w s) = requests s"
  by (simp_all add: configure_def init_failed_def split: outcome.split)

lemma layout_fields:
  "ai_model (page_layout s) = ai_model s"
  "analysis_result (page_layout s) = analysis_result s"
  "gateway_calls (page_layout s) = gateway_calls s"
  "requests (page_layout s) = requests s"
  by (simp_all add: page_layout_def)

lemma footer_fields:
  "ai_model (footer s) = ai_model s"
  "analysis_result (footer s) = analysis_result s"
  "gateway_calls (footer s) = gateway_calls s"
  "requests (footer s) = requests s"
  by (simp_all add: footer_def)

lemma button_idle:
  assumes "\<not> button inp \<or> feedback_input inp = []"
  shows "analyze_button inp s = st (Button analyze_label) s"
  using assms by (auto simp add: analyze_button_def Let_def)

lemma button_gateway:
  "gateway_calls (analyze_button inp s) =
     gateway_calls s @
     (if button inp \<and> feedback_input inp \<noteq> []
      then [analysis_prompt (feedback_input inp) default_image_info] else [])"
  by (simp add: analyze_button_def Let_def split_beta analyze_feedback_def gateway_fields)

lemma button_model: "ai_model (analyze_button inp s) = ai_model s"
  by (simp add: analyze_button_def Let_def split_beta analyze_feedback_def gateway_fields)


lemma errors_append: "errors (xs @ ys) = errors xs @ errors ys"
  by (induction xs rule: errors.induct) simp_all

lemma gateway_reply:
  "fst (get_ai_response p s) =
     (case ai_model s of
        None \<Rightarrow> model_unavailable
      | Some m \<Rightarrow>
          (case m (length (requests s)) p of
             Returns text \<Rightarrow> text
           | Raises e \<Rightarrow> response_error @ '': '' @ e))"
  by (simp add: get_ai_response_def Let_def split: option.split outcome.split)

lemma gateway_page:
  "page (snd (get_ai_response p s)) =
     page s @
     (case ai_model s of
        None \<Rightarrow> [Error not_initialized]
      | Some m \<Rightarrow>
          (case m (length (requests s)) p of
             Returns text \<Rightarrow> []
           | Raises e \<Rightarrow> [Error (response_error @ '': '' @ e)]))"
  by (simp add: get_ai_response_def Let_def split: option.split outcome.split)

lemma configure_model:
  "ai_model (configure w s) =
     (case secrets w of
        Raises e \<Rightarrow> None
      | Returns key \<Rightarrow>
          if key = [] then None
          else (case connect w key of Raises e \<Rightarrow> None | Returns m \<Rightarrow> Some m))"
  by (simp add: configure_def init_failed_def split: outcome.split)

lemma button_result:
  assumes "button inp" "feedback_input inp \<noteq> []"
  shows "analysis_result (analyze_button inp s) =
         Some (fst (get_ai_response (analysis_prompt (feedback_input inp) default_image_info) s))"
  using assms
  by (simp add: analyze_button_def Let_def split_beta analyze_feedback_def gateway_reply
      split: option.split)

lemma button_requests:
  "requests (analyze_button inp s) =
     requests s @
     (if button inp \<and> feedback_input inp \<noteq> [] \<and> ai_model s \<noteq> None
      then [analysis_prompt (feedback_input inp) default_image_info] else [])"
  by (simp add: analyze_button_def Let_def split_beta analyze_feedback_def gateway_fields)

lemma display_requests:
  "requests (display_results s) =
     requests s @
     (case analysis_result s of
        None \<Rightarrow> []
      | Some t \<Rightarrow>
          if t = [] \<or> str_in model_unavailable t \<or> str_in response_error t \<or> ai_model s = None
          then []
          else [case_studies_prompt t, critical_thinking_prompt t, abstract_concepts_prompt t])"
  by (simp add: display_results_def Let_def downstream_requests split: option.split)

lemma display_failed:
  assumes "analysis_result s = Some t" "str_in model_unavailable t \<or> str_in response_error t"
  shows "display_results s =
         st (Error analysis_failed) (st (Markdown t) (st (Subheader result_header) s))"
  using assms sentinel_nonempty by (auto simp add: display_results_def Let_def)

lemma display_valid:
  assumes "analysis_result s = Some t" "t \<noteq> []"
    "\<not> str_in model_unavailable t" "\<not> str_in response_error t"
  shows "display_results s = downstream t (st (Markdown t) (st (Subheader result_header) s))"
  using assms by (simp add: display_results_def Let_def)

lemma gateway_reply_cong:
  assumes "ai_model s = ai_model s'" "requests s = requests s'"
  shows "fst (get_ai_response p s) = fst (get_ai_response p s')"
  unfolding gateway_reply assms ..

lemma script_result:
  assumes "button inp" "feedback_input inp \<noteq> []"
  shows "analysis_result (script w inp s) =
         Some (fst (analyze_feedback (Some (feedback_input inp)) default_image_info
                      (configure w s)))"
proof -
  have "analysis_result (script w inp s) =
      Some (fst (get_ai_response (analysis_prompt (feedback_input inp) default_image_info)
                   (page_layout (configure w s))))"
    using assms by (simp add: script_def footer_fields display_fields button_result)
  also have "fst (get_ai_response (analysis_prompt (feedback_input inp) default_image_info)
                   (page_layout (configure w s))) =
      fst (get_ai_response (analysis_prompt (feedback_input inp) default_image_info)
             (configure w s))"
    by (rule gateway_reply_cong) (simp_all add: layout_fields)
  also have "\<dots> = fst (analyze_feedback (Some (feedback_input inp)) default_image_info
                        (configure w s))"
    using assms by (simp add: analyze_feedback_def)
  finally show ?thesis .
qed

lemmas script_fields = script_def footer_fields display_fields display_gateway display_requests
  button_gateway button_requests button_model layout_fields configure_fields

lemmas run_defs = script_def footer_def display_results_def downstream_def analyze_button_def
  page_layout_def configure_def init_failed_def analyze_feedback_def get_ai_response_def
  generate_case_studies_def generate_critical_thinking_prompts_def interpret_abstract_concepts_def
  st_def fresh_def online_def offline_def submit_def steady_def failing_at_def silent_def
  model_unavailable_def response_error_def Let_def

text \<open>
  When \<open>st.error\<close> returns, the Gateway with escaping exceptions returns what
  \<open>get_ai_response\<close> returns.
\<close>

lemma get_ai_response_raising_quiet:
  "get_ai_response_raising (handle_of s) quiet p = Return (fst (get_ai_response p s))"
  by (simp add: get_ai_response_raising_def handle_of_def quiet_def gateway_reply
      split: option.split outcome.split)

section \<open>The claims\<close>

subsection \<open>Order of the Gateway calls\<close>

text \<open>
  C1, as stated, fails: the three later stages all take the first-stage text as their
  input, so a failure of the case-studies stage does not stop the two stages after it.
  Below the service fails on its second request (the case-studies prompt): the page shows
  that stage's output, an error string, and the Gateway is still called for the
  critical-thinking prompts and for the interpretation.
\<close>

theorem later_stages_run_after_failed_case_studies:
  "gateway_calls (script (online (failing_at 1)) (submit ''x'') fresh) =
     [analysis_prompt ''x'' default_image_info, case_studies_prompt ''ok'',
      critical_thinking_prompt ''ok'', abstract_concepts_prompt ''ok''] \<and>
   requests (script (online (failing_at 1)) (submit ''x'') fresh) =
     [analysis_prompt ''x'' default_image_info, case_studies_prompt ''ok'',
      critical_thinking_prompt ''ok'', abstract_concepts_prompt ''ok''] \<and>
   page (script (online (failing_at 1)) (submit ''x'') fresh) =
     [Success init_ok, Title title_text, Markdown intro, Header enter_header,
      Text_area paste_label, Button analyze_label, Header insights_header, Spinner analyzing,
      Subheader result_header, Markdown ''ok'',
      Markdown separator, Subheader case_studies_header, Spinner generating_case_studies,
      Error ''Error getting AI response: boom'', Markdown ''Error getting AI response: boom'',
      Markdown separator, Subheader prompts_header, Spinner generating_prompts, Markdown ''ok'',
      Markdown separator, Subheader concepts_header, Spinner interpreting, Markdown ''ok'',
      Markdown separator, Markdown built_with] \<and>
   str_in response_error ''Error getting AI response: boom''"
  by (simp add: run_defs)

text \<open>
  C1, amended: in every run of the script the Gateway calls are issued in the order
  analysis, case studies, critical-thinking prompts, abstract-concept interpretation. The
  analysis call is made exactly when the button was pressed with non-empty text; the three
  later calls are made, all three and in this order, exactly when the first-stage result
  held in the session is non-empty and contains neither error sentinel. So a failed first
  stage stops every later stage, and nothing else does.
\<close>

theorem gateway_call_order:
  "gateway_calls (script w inp s) =
     gateway_calls s @
     (if button inp \<and> feedback_input inp \<noteq> []
      then [analysis_prompt (feedback_input inp) default_image_info] else []) @
     (case analysis_result (script w inp s) of
        None \<Rightarrow> []
      | Some t \<Rightarrow>
          if t = [] \<or> str_in model_unavailable t \<or> str_in response_error t then []
          else [case_studies_prompt t, critical_thinking_prompt t, abstract_concepts_prompt t])"
  by (simp add: script_fields)

theorem gateway_call_order_witness:
  "analysis_result (script offline (submit ''x'') fresh) = Some ''AI model not available.'' \<and>
   gateway_calls (script offline (submit ''x'') fresh) = [analysis_prompt ''x'' default_image_info]"
  using gateway_call_order [of offline "submit ''x''" fresh]
  by (simp add: script_fields button_result gateway_reply configure_model
      offline_def submit_def fresh_def model_unavailable_def)

subsection \<open>A failed first stage\<close>

text \<open>
  C2, as stated, fails in its second half: when the first-stage result contains a
  sentinel the script does not call the three stage functions at all, so none of their
  "cannot proceed" strings is produced. With no credential, a submit shows the sentinel and
  one error message after it.
\<close>

theorem failed_analysis_shows_one_error:
  "page (script offline (submit ''x'') fresh) =
     [Error (init_error @ ''GOOGLE_API_KEY''), Warning init_warning,
      Title title_text, Markdown intro, Header enter_header, Text_area paste_label,
      Button analyze_label, Header insights_header, Spinner analyzing, Error not_initialized,
      Subheader result_header, Markdown model_unavailable, Error analysis_failed,
      Markdown separator, Markdown built_with] \<and>
   Markdown no_case_studies \<notin> set (page (script offline (submit ''x'') fresh)) \<and>
   Markdown no_prompts \<notin> set (page (script offline (submit ''x'') fresh)) \<and>
   Markdown no_interpretation \<notin> set (page (script offline (submit ''x'') fresh))"
  by (simp add: run_defs no_case_studies_def no_prompts_def no_interpretation_def
      intro_def separator_def built_with_def)

text \<open>
  C2, amended: for every first-stage result that contains an error sentinel, the display
  block issues no Gateway call and no request, and shows the result followed by the single
  error message "Analysis failed, cannot generate further outputs."; the result is none of
  the three "cannot proceed" strings, so none of them is shown.
\<close>

theorem failed_analysis_halts:
  assumes "analysis_result s = Some t"
    and "str_in model_unavailable t \<or> str_in response_error t"
  shows "gateway_calls (display_results s) = gateway_calls s \<and>
         requests (display_results s) = requests s \<and>
         page (display_results s) =
           page s @ [Subheader result_header, Markdown t, Error analysis_failed] \<and>
         t \<notin> {no_case_studies, no_prompts, no_interpretation}"
proof -
  have "display_results s =
        st (Error analysis_failed) (st (Markdown t) (st (Subheader result_header) s))"
    using assms by (rule display_failed)
  then have shown: "gateway_calls (display_results s) = gateway_calls s \<and>
      requests (display_results s) = requests s \<and>
      page (display_results s) =
        page s @ [Subheader result_header, Markdown t, Error analysis_failed]"
    by simp
  have "\<not> str_in model_unavailable no_case_studies" "\<not> str_in response_error no_case_studies"
    "\<not> str_in model_unavailable no_prompts" "\<not> str_in response_error no_prompts"
    "\<not> str_in model_unavailable no_interpretation" "\<not> str_in response_error no_interpretation"
    by (simp_all add: model_unavailable_def response_error_def no_case_studies_def
        no_prompts_def no_interpretation_def)
  with assms(2) have "t \<notin> {no_case_studies, no_prompts, no_interpretation}"
    by auto
  with shown show ?thesis by simp
qed

theorem failed_analysis_halts_witness:
  "analysis_result (fresh\<lparr>analysis_result := Some ''Error getting AI response: boom''\<rparr>) =
     Some ''Error getting AI response: boom'' \<and>
   (str_in model_unavailable ''Error getting AI response: boom'' \<or>
    str_in response_error ''Error getting AI response: boom'') \<and>
   gateway_calls (display_results (fresh\<lparr>analysis_result := Some ''Error getting AI response: boom''\<rparr>)) = [] \<and>
   page (display_results (fresh\<lparr>analysis_result := Some ''Error getting AI response: boom''\<rparr>)) =
     [Subheader result_header, Markdown ''Error getting AI response: boom'', Error analysis_failed]"
proof -
  have a: "analysis_result (fresh\<lparr>analysis_result := Some ''Error getting AI response: boom''\<rparr>) =
      Some ''Error getting AI response: boom''"
    by simp
  have b: "str_in model_unavailable ''Error getting AI response: boom'' \<or>
      str_in response_error ''Error getting AI response: boom''"
    by (simp add: response_error_def)
  show ?thesis
    using a b failed_analysis_halts [OF a b] by (simp add: fresh_def)
qed

subsection \<open>The guard of a later stage\<close>

text \<open>
  C3, as stated, fails: the empty string contains neither sentinel, and yet each of the
  three stage functions returns its "cannot proceed" message for it without calling the
  Gateway (the \<open>not ai_analysis_text\<close> half of their guard).
\<close>

theorem stage_skips_gateway_on_empty_input:
  "\<not> str_in model_unavailable [] \<and> \<not> str_in response_error [] \<and>
   generate_case_studies (Some []) fresh = (no_case_studies, fresh) \<and>
   generate_critical_thinking_prompts (Some []) fresh = (no_prompts, fresh) \<and>
   interpret_abstract_concepts (Some []) fresh = (no_interpretation, fresh) \<and>
   gateway_calls (snd (generate_case_studies (Some []) fresh)) = []"
  by (simp add: generate_case_studies_def generate_critical_thinking_prompts_def
      interpret_abstract_concepts_def model_unavailable_def response_error_def fresh_def)

text \<open>
  C3, amended: for every input string to a later stage function, if the input is empty or
  contains "AI model not available." the stage returns its static message and leaves the
  state as it was (no Gateway call); if the input is non-empty and contains neither
  sentinel, the stage is one Gateway call with the stage's prompt built from the input.
  Nothing is said here about an input whose only sentinel is "Error getting AI response".
\<close>

theorem stage_guard:
  "(t = [] \<or> str_in model_unavailable t \<longrightarrow>
      generate_case_studies (Some t) s =
        (''Cannot generate case studies without a valid AI analysis.'', s) \<and>
      generate_critical_thinking_prompts (Some t) s =
        (''Cannot generate critical thinking prompts without a valid AI analysis.'', s) \<and>
      interpret_abstract_concepts (Some t) s =
        (''Cannot interpret abstract concepts without a valid AI analysis.'', s)) \<and>
   (t \<noteq> [] \<and> \<not> str_in model_unavailable t \<and> \<not> str_in response_error t \<longrightarrow>
      generate_case_studies (Some t) s = get_ai_response (case_studies_prompt t) s \<and>
      generate_critical_thinking_prompts (Some t) s =
        get_ai_response (critical_thinking_prompt t) s \<and>
      interpret_abstract_concepts (Some t) s = get_ai_response (abstract_concepts_prompt t) s \<and>
      gateway_calls (snd (generate_case_studies (Some t) s)) =
        gateway_calls s @ [case_studies_prompt t] \<and>
      gateway_calls (snd (generate_critical_thinking_prompts (Some t) s)) =
        gateway_calls s @ [critical_thinking_prompt t] \<and>
      gateway_calls (snd (interpret_abstract_concepts (Some t) s)) =
        gateway_calls s @ [abstract_concepts_prompt t])"
proof (intro conjI impI)
  assume refuse: "t = [] \<or> str_in model_unavailable t"
  show "generate_case_studies (Some t) s =
      (''Cannot generate case studies without a valid AI analysis.'', s)"
    using stage_refuses(1) [OF refuse] by (simp add: no_case_studies_def)
  show "generate_critical_thinking_prompts (Some t) s =
      (''Cannot generate critical thinking prompts without a valid AI analysis.'', s)"
    using stage_refuses(2) [OF refuse] by (simp add: no_prompts_def)
  show "interpret_abstract_concepts (Some t) s =
      (''Cannot interpret abstract concepts without a valid AI analysis.'', s)"
    using stage_refuses(3) [OF refuse] by (simp add: no_interpretation_def)
next
  assume "t \<noteq> [] \<and> \<not> str_in model_unavailable t \<and> \<not> str_in response_error t"
  then have ok: "t \<noteq> []" "\<not> str_in model_unavailable t" by simp_all
  show "generate_case_studies (Some t) s = get_ai_response (case_studies_prompt t) s"
    by (rule stage_calls(1) [OF ok])
  show "generate_critical_thinking_prompts (Some t) s =
      get_ai_response (critical_thinking_prompt t) s"
    by (rule stage_calls(2) [OF ok])
  show "interpret_abstract_concepts (Some t) s = get_ai_response (abstract_concepts_prompt t) s"
    by (rule stage_calls(3) [OF ok])
  show "gateway_calls (snd (generate_case_studies (Some t) s)) =
      gateway_calls s @ [case_studies_prompt t]"
    by (simp add: stage_calls(1) [OF ok] gateway_fields)
  show "gateway_calls (snd (generate_critical_thinking_prompts (Some t) s)) =
      gateway_calls s @ [critical_thinking_prompt t]"
    by (simp add: stage_calls(2) [OF ok] gateway_fields)
  show "gateway_calls (snd (interpret_abstract_concepts (Some t) s)) =
      gateway_calls s @ [abstract_concepts_prompt t]"
    by (simp add: stage_calls(3) [OF ok] gateway_fields)
qed

theorem stage_guard_witness:
  "str_in model_unavailable ''AI model not available.'' \<and>
   generate_case_studies (Some ''AI model not available.'') fresh =
     (''Cannot generate case studies without a valid AI analysis.'', fresh) \<and>
   ''ok'' \<noteq> [] \<and> \<not> str_in model_unavailable ''ok'' \<and> \<not> str_in response_error ''ok'' \<and>
   gateway_calls (snd (interpret_abstract_concepts (Some ''ok'') fresh)) =
     [abstract_concepts_prompt ''ok'']"
proof -
  have a: "str_in model_unavailable ''AI model not available.''"
    by (simp add: model_unavailable_def)
  have b: "''ok'' \<noteq> [] \<and> \<not> str_in model_unavailable ''ok'' \<and> \<not> str_in response_error ''ok''"
    by (simp add: model_unavailable_def response_error_def)
  from a stage_guard [of "''AI model not available.''" fresh]
  have c: "generate_case_studies (Some ''AI model not available.'') fresh =
      (''Cannot generate case studies without a valid AI analysis.'', fresh)"
    by blast
  from b stage_guard [of "''ok''" fresh]
  have d: "gateway_calls (snd (interpret_abstract_concepts (Some ''ok'') fresh)) =
      gateway_calls fresh @ [abstract_concepts_prompt ''ok'']"
    by blast
  show ?thesis
    using a b c d by (simp add: fresh_def)
qed

subsection \<open>Empty input against the other failures\<close>

text \<open>
  C4, as stated, fails: with a working credential, pressing the button on an empty text
  area shows no message at all. The page is the fixed layout and the footer; it has no
  \<open>st.error\<close> element.
\<close>

theorem empty_submit_shows_no_message:
  "page (script (online steady) (submit []) fresh) =
     [Success init_ok, Title title_text, Markdown intro, Header enter_header,
      Text_area paste_label, Button analyze_label, Markdown separator, Markdown built_with] \<and>
   errors (page (script (online steady) (submit []) fresh)) = []"
  by (simp add: run_defs)

text \<open>
  C4, amended: when the user submits empty input the handler does nothing beyond drawing
  the button: no message, no Gateway call, the cached result untouched. The two other
  failure kinds are the ones that produce a visible error message: a start-up that ends
  without a model handle shows one, and so does every Gateway call made without a handle
  or whose model call raises.
\<close>

theorem empty_submit_is_silent:
  "(feedback_input inp = [] \<longrightarrow> analyze_button inp s = st (Button analyze_label) s) \<and>
   (ai_model (configure w s) = None \<longrightarrow>
      (\<exists>msg. errors (page (configure w s)) = errors (page s) @ [msg])) \<and>
   (ai_model s = None \<longrightarrow>
      errors (page (snd (get_ai_response p s))) =
        errors (page s) @ [''AI model not initialized. Cannot get response.'']) \<and>
   (\<forall>m e. ai_model s = Some m \<and> m (length (requests s)) p = Raises e \<longrightarrow>
      errors (page (snd (get_ai_response p s))) =
        errors (page s) @ [''Error getting AI response: '' @ e])"
proof (intro conjI impI allI)
  assume "feedback_input inp = []"
  then show "analyze_button inp s = st (Button analyze_label) s"
    by (simp add: button_idle)
next
  assume "ai_model (configure w s) = None"
  then show "\<exists>msg. errors (page (configure w s)) = errors (page s) @ [msg]"
    by (auto simp add: configure_def init_failed_def errors_append
        split: outcome.splits if_splits)
next
  assume "ai_model s = None"
  then show "errors (page (snd (get_ai_response p s))) =
      errors (page s) @ [''AI model not initialized. Cannot get response.'']"
    by (simp add: gateway_page errors_append not_initialized_def)
next
  fix m e
  assume "ai_model s = Some m \<and> m (length (requests s)) p = Raises e"
  then show "errors (page (snd (get_ai_response p s))) =
      errors (page s) @ [''Error getting AI response: '' @ e]"
    by (simp add: gateway_page errors_append response_error_def)
qed

theorem empty_submit_is_silent_witness:
  "feedback_input (submit []) = [] \<and>
   analyze_button (submit []) fresh = st (Button analyze_label) fresh \<and>
   ai_model (configure offline fresh) = None \<and>
   (\<exists>msg. errors (page (configure offline fresh)) = errors (page fresh) @ [msg]) \<and>
   ai_model fresh = None \<and>
   errors (page (snd (get_ai_response ''p'' fresh))) =
     [''AI model not initialized. Cannot get response.''] \<and>
   ai_model (fresh\<lparr>ai_model := Some (failing_at 0)\<rparr>) = Some (failing_at 0) \<and>
   failing_at 0 (length (requests (fresh\<lparr>ai_model := Some (failing_at 0)\<rparr>))) ''p'' = Raises ''boom'' \<and>
   errors (page (snd (get_ai_response ''p'' (fresh\<lparr>ai_model := Some (failing_at 0)\<rparr>)))) =
     [''Error getting AI response: boom'']"
proof -
  have a: "feedback_input (submit []) = []" by (simp add: submit_def)
  have b: "ai_model (configure offline fresh) = None"
    by (simp add: configure_model offline_def)
  have c: "ai_model fresh = None" by (simp add: fresh_def)
  have d: "ai_model (fresh\<lparr>ai_model := Some (failing_at 0)\<rparr>) = Some (failing_at 0) \<and>
      failing_at 0 (length (requests (fresh\<lparr>ai_model := Some (failing_at 0)\<rparr>))) ''p'' = Raises ''boom''"
    by (simp add: fresh_def failing_at_def)
  have e: "errors (page fresh) = []" by (simp add: fresh_def)
  show ?thesis
    using a b c d e
      empty_submit_is_silent [of "submit []" fresh offline "''p''"]
      empty_submit_is_silent [of "submit []" "fresh\<lparr>ai_model := Some (failing_at 0)\<rparr>" offline "''p''"]
    by (simp add: fresh_def)
qed

subsection \<open>No model handle\<close>

text \<open>
  C5: when start-up leaves no model handle, pressing the button with some text stores
  exactly "AI model not available." as the first-stage result; the only Gateway call of the
  run is the analysis call (none downstream), and no request leaves the program.
\<close>

theorem unavailable_gateway_submit:
  assumes "ai_model (configure w s) = None"
    and "button inp" and "feedback_input inp \<noteq> []"
  shows "analysis_result (script w inp s) = Some ''AI model not available.'' \<and>
         gateway_calls (script w inp s) =
           gateway_calls s @ [analysis_prompt (feedback_input inp) default_image_info] \<and>
         requests (script w inp s) = requests s"
proof -
  have result: "analysis_result (script w inp s) = Some model_unavailable"
    using assms by (simp add: script_fields button_result gateway_reply)
  have unavailable: "str_in model_unavailable model_unavailable"
    by (simp add: model_unavailable_def)
  have "analysis_result (analyze_button inp (page_layout (configure w s))) = Some model_unavailable"
    using result by (simp add: script_fields)
  then have "gateway_calls (script w inp s) =
      gateway_calls s @ [analysis_prompt (feedback_input inp) default_image_info] \<and>
      requests (script w inp s) = requests s"
    using assms unavailable by (simp add: script_fields)
  with result show ?thesis
    by (simp add: model_unavailable_def)
qed

theorem unavailable_gateway_submit_witness:
  "ai_model (configure offline fresh) = None \<and>
   button (submit ''x'') \<and> feedback_input (submit ''x'') \<noteq> [] \<and>
   analysis_result (script offline (submit ''x'') fresh) = Some ''AI model not available.'' \<and>
   gateway_calls (script offline (submit ''x'') fresh) =
     [analysis_prompt ''x'' default_image_info] \<and>
   requests (script offline (submit ''x'') fresh) = []"
proof -
  have a: "ai_model (configure offline fresh) = None"
    by (simp add: configure_model offline_def)
  have b: "button (submit ''x'')" and c: "feedback_input (submit ''x'') \<noteq> []"
    by (simp_all add: submit_def)
  show ?thesis
    using a b c unavailable_gateway_submit [OF a b c] by (simp add: submit_def fresh_def)
qed

subsection \<open>What the Gateway returns and what it lets through\<close>

text \<open>
  C6, as stated, fails: \<open>get_ai_response\<close> can raise. An exception of the model call that is
  not an instance of \<open>Exception\<close> is not caught by \<open>except Exception\<close> and reaches the
  caller, and so does whatever \<open>st.error\<close> raises, here without a model handle.
\<close>

theorem get_ai_response_lets_exceptions_through:
  "get_ai_response_raising (Some (raising (BaseException ''KeyboardInterrupt''))) quiet ''p'' =
     Raise (BaseException ''KeyboardInterrupt'') \<and>
   get_ai_response_raising None (stopping (BaseException ''StopException'')) ''p'' =
     Raise (BaseException ''StopException'')"
  by (simp add: get_ai_response_raising_def raising_def quiet_def stopping_def)

text \<open>
  C6, amended: for every prompt string, if the \<open>st.error\<close> calls return and the model call
  raises nothing outside \<open>Exception\<close>, then \<open>get_ai_response\<close> returns a string and does not
  raise: "AI model not available." without a model handle, the model's text when the model
  call returns, and "Error getting AI response: " followed by \<open>str(e)\<close> for any \<open>Exception\<close>
  \<open>e\<close> of the model call. With or without that condition, an exception of the model call
  that is not an instance of \<open>Exception\<close> is raised on to the caller, and so is an exception
  of \<open>st.error\<close>.
\<close>

theorem get_ai_response_returns:
  "((\<forall>msg. st_error msg = None) \<and>
    (\<forall>g b. handle = Some g \<longrightarrow> g prompt \<noteq> Raise (BaseException b)) \<longrightarrow>
      (\<exists>r. get_ai_response_raising handle st_error prompt = Return r) \<and>
      (handle = None \<longrightarrow>
         get_ai_response_raising handle st_error prompt = Return ''AI model not available.'') \<and>
      (\<forall>g answer. handle = Some g \<and> g prompt = Return answer \<longrightarrow>
         get_ai_response_raising handle st_error prompt = Return answer) \<and>
      (\<forall>g e. handle = Some g \<and> g prompt = Raise (Exception e) \<longrightarrow>
         get_ai_response_raising handle st_error prompt =
           Return (''Error getting AI response: '' @ e))) \<and>
   (\<forall>g b. handle = Some g \<and> g prompt = Raise (BaseException b) \<longrightarrow>
      get_ai_response_raising handle st_error prompt = Raise (BaseException b)) \<and>
   (\<forall>x. handle = None \<and> st_error ''AI model not initialized. Cannot get response.'' = Some x \<longrightarrow>
      get_ai_response_raising handle st_error prompt = Raise x) \<and>
   (\<forall>g e x. handle = Some g \<and> g prompt = Raise (Exception e) \<and>
      st_error (''Error getting AI response: '' @ e) = Some x \<longrightarrow>
      get_ai_response_raising handle st_error prompt = Raise x)"
proof (intro conjI impI allI)
  assume good: "(\<forall>msg. st_error msg = None) \<and>
    (\<forall>g b. handle = Some g \<longrightarrow> g prompt \<noteq> Raise (BaseException b))"
  then have silent_error: "st_error msg = None" for msg by simp
  show "\<exists>r. get_ai_response_raising handle st_error prompt = Return r"
  proof (cases handle)
    case None
    then show ?thesis
      by (simp add: get_ai_response_raising_def silent_error)
  next
    case (Some g)
    with good have caught: "g prompt \<noteq> Raise (BaseException b)" for b by simp
    show ?thesis
    proof (cases "g prompt")
      case (Return answer)
      with Some show ?thesis by (simp add: get_ai_response_raising_def)
    next
      case (Raise x)
      with caught obtain e where "x = Exception e" by (cases x) auto
      with Some Raise show ?thesis
        by (simp add: get_ai_response_raising_def silent_error)
    qed
  qed
  show "get_ai_response_raising handle st_error prompt = Return ''AI model not available.''"
    if "handle = None"
    using that by (simp add: get_ai_response_raising_def silent_error model_unavailable_def)
  show "get_ai_response_raising handle st_error prompt = Return answer"
    if "handle = Some g \<and> g prompt = Return answer" for g answer
    using that by (simp add: get_ai_response_raising_def)
  show "get_ai_response_raising handle st_error prompt =
      Return (''Error getting AI response: '' @ e)"
    if "handle = Some g \<and> g prompt = Raise (Exception e)" for g e
    using that by (simp add: get_ai_response_raising_def silent_error response_error_def)
next
  fix g b
  assume "handle = Some g \<and> g prompt = Raise (BaseException b)"
  then show "get_ai_response_raising handle st_error prompt = Raise (BaseException b)"
    by (simp add: get_ai_response_raising_def)
next
  fix x
  assume "handle = None \<and> st_error ''AI model not initialized. Cannot get response.'' = Some x"
  then show "get_ai_response_raising handle st_error prompt = Raise x"
    by (simp add: get_ai_response_raising_def not_initialized_def)
next
  fix g e x
  assume "handle = Some g \<and> g prompt = Raise (Exception e) \<and>
    st_error (''Error getting AI response: '' @ e) = Some x"
  then show "get_ai_response_raising handle st_error prompt = Raise x"
    by (simp add: get_ai_response_raising_def response_error_def)
qed

theorem get_ai_response_returns_witness:
  "(\<forall>msg. quiet msg = None) \<and>
   get_ai_response_raising None quiet ''p'' = Return ''AI model not available.'' \<and>
   get_ai_response_raising (Some (answering ''ok'')) quiet ''p'' = Return ''ok'' \<and>
   get_ai_response_raising (Some (raising (Exception ''boom''))) quiet ''p'' =
     Return ''Error getting AI response: boom'' \<and>
   get_ai_response_raising (Some (raising (BaseException ''SystemExit''))) quiet ''p'' =
     Raise (BaseException ''SystemExit'') \<and>
   get_ai_response_raising None (stopping (BaseException ''RerunException'')) ''p'' =
     Raise (BaseException ''RerunException'') \<and>
   get_ai_response_raising (Some (raising (Exception ''boom'')))
     (stopping (BaseException ''RerunException'')) ''p'' =
     Raise (BaseException ''RerunException'')"
proof -
  have q: "\<forall>msg. quiet msg = None"
    by (simp add: quiet_def)
  have r1: "get_ai_response_raising None quiet ''p'' = Return ''AI model not available.''"
    using q get_ai_response_returns [where st_error = quiet and handle = None and prompt = "''p''"]
    by simp
  have r2: "get_ai_response_raising (Some (answering ''ok'')) quiet ''p'' = Return ''ok''"
    using q get_ai_response_returns
      [where st_error = quiet and handle = "Some (answering ''ok'')" and prompt = "''p''"]
    by (simp add: answering_def)
  have r3: "get_ai_response_raising (Some (raising (Exception ''boom''))) quiet ''p'' =
      Return ''Error getting AI response: boom''"
    using q get_ai_response_returns
      [where st_error = quiet and handle = "Some (raising (Exception ''boom''))"
        and prompt = "''p''"]
    by (simp add: raising_def)
  have r4: "get_ai_response_raising (Some (raising (BaseException ''SystemExit''))) quiet ''p'' =
      Raise (BaseException ''SystemExit'')"
    using get_ai_response_returns
      [where st_error = quiet and handle = "Some (raising (BaseException ''SystemExit''))"
        and prompt = "''p''"]
    by (simp add: raising_def)
  have r5: "get_ai_response_raising None (stopping (BaseException ''RerunException'')) ''p'' =
      Raise (BaseException ''RerunException'')"
    using get_ai_response_returns
      [where st_error = "stopping (BaseException ''RerunException'')" and handle = None
        and prompt = "''p''"]
    by (simp add: stopping_def)
  have r6: "get_ai_response_raising (Some (raising (Exception ''boom'')))
      (stopping (BaseException ''RerunException'')) ''p'' =
      Raise (BaseException ''RerunException'')"
    using get_ai_response_returns
      [where st_error = "stopping (BaseException ''RerunException'')"
        and handle = "Some (raising (Exception ''boom''))" and prompt = "''p''"]
    by (simp add: raising_def stopping_def)
  from q r1 r2 r3 r4 r5 r6 show ?thesis by simp
qed

subsection \<open>Submitting nothing\<close>

text \<open>
  C7: when the text area is empty, the button handler issues no Gateway call and no
  request and does not write the cached analysis result; it only draws the button. When
  nothing is cached either, the whole run issues no Gateway call and leaves the cache empty.
\<close>

theorem empty_submit_no_analysis:
  assumes "feedback_input inp = []"
  shows "gateway_calls (analyze_button inp s) = gateway_calls s \<and>
         requests (analyze_button inp s) = requests s \<and>
         analysis_result (analyze_button inp s) = analysis_result s \<and>
         page (analyze_button inp s) = page s @ [Button analyze_label] \<and>
         (analysis_result s = None \<longrightarrow>
            gateway_calls (script w inp s) = gateway_calls s \<and>
            requests (script w inp s) = requests s \<and>
            analysis_result (script w inp s) = None)"
proof -
  have idle: "analyze_button inp s' = st (Button analyze_label) s'" for s'
    using assms by (simp add: button_idle)
  have handler: "gateway_calls (analyze_button inp s) = gateway_calls s \<and>
      requests (analyze_button inp s) = requests s \<and>
      analysis_result (analyze_button inp s) = analysis_result s \<and>
      page (analyze_button inp s) = page s @ [Button analyze_label]"
    by (simp add: idle)
  have run: "gateway_calls (script w inp s) = gateway_calls s \<and>
      requests (script w inp s) = requests s \<and>
      analysis_result (script w inp s) = None" if "analysis_result s = None"
    using that assms by (simp add: script_fields idle)
  from handler run show ?thesis by blast
qed

theorem empty_submit_no_analysis_witness:
  "feedback_input (submit []) = [] \<and>
   gateway_calls (analyze_button (submit []) fresh) = [] \<and>
   analysis_result (analyze_button (submit []) fresh) = None \<and>
   analysis_result fresh = None \<and>
   gateway_calls (script (online steady) (submit []) fresh) = [] \<and>
   requests (script (online steady) (submit []) fresh) = [] \<and>
   analysis_result (script (online steady) (submit []) fresh) = None"
proof -
  have a: "feedback_input (submit []) = []" by (simp add: submit_def)
  have b: "analysis_result fresh = None" by (simp add: fresh_def)
  show ?thesis
    using a b empty_submit_no_analysis [OF a, of fresh "online steady"]
    by (simp add: fresh_def)
qed

subsection \<open>A good first stage\<close>

text \<open>
  C8, as stated, fails for the empty result: it contains neither sentinel, but the display
  block is entered only for a non-empty cached result, so no later stage is invoked. A
  service that answers with no text leaves exactly that in the session.
\<close>

theorem empty_result_runs_no_stage:
  "\<not> str_in model_unavailable [] \<and> \<not> str_in response_error [] \<and>
   display_results (fresh\<lparr>analysis_result := Some []\<rparr>) = fresh\<lparr>analysis_result := Some []\<rparr> \<and>
   analysis_result (script (online silent) (submit ''x'') fresh) = Some [] \<and>
   gateway_calls (script (online silent) (submit ''x'') fresh) =
     [analysis_prompt ''x'' default_image_info]"
  by (simp add: model_unavailable_def response_error_def display_results_def
      script_fields button_result gateway_reply configure_model
      online_def silent_def submit_def fresh_def)

text \<open>
  C8, amended: for every non-empty first-stage result that contains neither error
  sentinel, the display block runs the three later stages on it, once each and in the fixed
  order: the Gateway is called with the case-studies prompt, then the critical-thinking
  prompt, then the interpretation prompt, each built from the first-stage result.
\<close>

theorem valid_result_runs_all_stages:
  assumes "analysis_result s = Some t" and "t \<noteq> []"
    and "\<not> str_in model_unavailable t" and "\<not> str_in response_error t"
  shows "display_results s = downstream t (st (Markdown t) (st (Subheader result_header) s)) \<and>
         gateway_calls (display_results s) =
           gateway_calls s @
           [case_studies_prompt t, critical_thinking_prompt t, abstract_concepts_prompt t] \<and>
         requests (display_results s) =
           (if ai_model s = None then requests s
            else requests s @
              [case_studies_prompt t, critical_thinking_prompt t, abstract_concepts_prompt t])"
proof (intro conjI)
  show "display_results s = downstream t (st (Markdown t) (st (Subheader result_header) s))"
    using assms by (rule display_valid)
  show "gateway_calls (display_results s) =
      gateway_calls s @
      [case_studies_prompt t, critical_thinking_prompt t, abstract_concepts_prompt t]"
    using assms by (simp add: display_gateway)
  show "requests (display_results s) =
      (if ai_model s = None then requests s
       else requests s @
         [case_studies_prompt t, critical_thinking_prompt t, abstract_concepts_prompt t])"
    using assms by (simp add: display_requests)
qed

theorem valid_result_runs_all_stages_witness:
  "analysis_result (fresh\<lparr>analysis_result := Some ''ok''\<rparr>) = Some ''ok'' \<and> ''ok'' \<noteq> [] \<and>
   \<not> str_in model_unavailable ''ok'' \<and> \<not> str_in response_error ''ok'' \<and>
   gateway_calls (display_results (fresh\<lparr>analysis_result := Some ''ok''\<rparr>)) =
     [case_studies_prompt ''ok'', critical_thinking_prompt ''ok'', abstract_concepts_prompt ''ok'']"
proof -
  have a: "analysis_result (fresh\<lparr>analysis_result := Some ''ok''\<rparr>) = Some ''ok''" by simp
  have b: "''ok'' \<noteq> []" by simp
  have c: "\<not> str_in model_unavailable ''ok''" by (simp add: model_unavailable_def)
  have d: "\<not> str_in response_error ''ok''" by (simp add: response_error_def)
  have e: "gateway_calls (display_results (fresh\<lparr>analysis_result := Some ''ok''\<rparr>)) =
      gateway_calls (fresh\<lparr>analysis_result := Some ''ok''\<rparr>) @
      [case_studies_prompt ''ok'', critical_thinking_prompt ''ok'', abstract_concepts_prompt ''ok'']"
    using valid_result_runs_all_stages [OF a b c d] by blast
  have f: "gateway_calls (fresh\<lparr>analysis_result := Some ''ok''\<rparr>) = []"
    by (simp add: fresh_def)
  show ?thesis
    using a b c d e f by simp
qed

subsection \<open>Submitting again\<close>

text \<open>
  C9, as stated, fails when the second analysis fails. Below the first submit succeeds
  (four Gateway calls) and the service then fails on the analysis request of the second
  submit: the cached result is replaced by the error string, and the second run makes the
  analysis call only, so the later stages do not run again.
\<close>

theorem resubmit_with_failed_analysis_runs_no_stage:
  "gateway_calls (script (online (failing_at 4)) (submit ''x'') fresh) =
     [analysis_prompt ''x'' default_image_info, case_studies_prompt ''ok'',
      critical_thinking_prompt ''ok'', abstract_concepts_prompt ''ok''] \<and>
   analysis_result (script (online (failing_at 4)) (submit ''x'') fresh) = Some ''ok'' \<and>
   analysis_result
     (script (online (failing_at 4)) (submit ''y'')
        (script (online (failing_at 4)) (submit ''x'') fresh)) =
     Some ''Error getting AI response: boom'' \<and>
   gateway_calls
     (script (online (failing_at 4)) (submit ''y'')
        (script (online (failing_at 4)) (submit ''x'') fresh)) =
     [analysis_prompt ''x'' default_image_info, case_studies_prompt ''ok'',
      critical_thinking_prompt ''ok'', abstract_concepts_prompt ''ok'',
      analysis_prompt ''y'' default_image_info]"
proof -
  have first: "analysis_result (script (online (failing_at 4)) (submit ''x'') fresh) = Some ''ok''"
    by (simp add: script_fields button_result gateway_reply configure_model
        online_def failing_at_def submit_def fresh_def)
  have calls: "gateway_calls (script (online (failing_at 4)) (submit ''x'') fresh) =
      [analysis_prompt ''x'' default_image_info, case_studies_prompt ''ok'',
       critical_thinking_prompt ''ok'', abstract_concepts_prompt ''ok'']"
    by (simp add: script_fields button_result gateway_reply configure_model
        online_def failing_at_def submit_def fresh_def model_unavailable_def response_error_def)
  have sent: "requests (script (online (failing_at 4)) (submit ''x'') fresh) =
      [analysis_prompt ''x'' default_image_info, case_studies_prompt ''ok'',
       critical_thinking_prompt ''ok'', abstract_concepts_prompt ''ok'']"
    by (simp add: script_fields button_result gateway_reply configure_model
        online_def failing_at_def submit_def fresh_def model_unavailable_def response_error_def)
  have second: "analysis_result
      (script (online (failing_at 4)) (submit ''y'')
         (script (online (failing_at 4)) (submit ''x'') fresh)) =
      Some ''Error getting AI response: boom''"
    using sent
    by (simp add: script_def footer_fields display_fields button_result gateway_reply
        layout_fields configure_fields configure_model
        online_def failing_at_def submit_def response_error_def)
  have "gateway_calls
      (script (online (failing_at 4)) (submit ''y'')
         (script (online (failing_at 4)) (submit ''x'') fresh)) =
      gateway_calls (script (online (failing_at 4)) (submit ''x'') fresh) @
      [analysis_prompt ''y'' default_image_info]"
    using second
    by (simp add: script_def footer_fields display_fields display_gateway button_gateway
        layout_fields configure_fields submit_def response_error_def)
  with first calls second show ?thesis by simp
qed

text \<open>
  C9, amended: for every pair of successive runs in which the second is a submit of
  non-empty text, the second run replaces the cached first-stage result by the new analysis
  output, whatever the first run had left there. The three later stages then run again,
  from the new result, exactly when that result is non-empty and contains neither error
  sentinel; otherwise the second run makes the analysis call only.
\<close>

theorem resubmit_replaces_result:
  assumes "button inp2" and "feedback_input inp2 \<noteq> []"
  shows "analysis_result (script w inp2 (script w inp1 s)) =
           Some (fst (analyze_feedback (Some (feedback_input inp2)) default_image_info
                        (configure w (script w inp1 s)))) \<and>
         gateway_calls (script w inp2 (script w inp1 s)) =
           gateway_calls (script w inp1 s) @
           [analysis_prompt (feedback_input inp2) default_image_info] @
           (case analysis_result (script w inp2 (script w inp1 s)) of
              None \<Rightarrow> []
            | Some t \<Rightarrow>
                if t = [] \<or> str_in model_unavailable t \<or> str_in response_error t then []
                else [case_studies_prompt t, critical_thinking_prompt t,
                      abstract_concepts_prompt t])"
proof (intro conjI)
  show "analysis_result (script w inp2 (script w inp1 s)) =
      Some (fst (analyze_feedback (Some (feedback_input inp2)) default_image_info
                   (configure w (script w inp1 s))))"
    using assms by (rule script_result)
  show "gateway_calls (script w inp2 (script w inp1 s)) =
      gateway_calls (script w inp1 s) @
      [analysis_prompt (feedback_input inp2) default_image_info] @
      (case analysis_result (script w inp2 (script w inp1 s)) of
         None \<Rightarrow> []
       | Some t \<Rightarrow>
           if t = [] \<or> str_in model_unavailable t \<or> str_in response_error t then []
           else [case_studies_prompt t, critical_thinking_prompt t,
                 abstract_concepts_prompt t])"
    using assms
    by (simp add: script_def footer_fields display_fields display_gateway button_gateway
        layout_fields configure_fields)
qed

theorem resubmit_replaces_result_witness:
  "button (submit ''y'') \<and> feedback_input (submit ''y'') \<noteq> [] \<and>
   analysis_result (script (online steady) (submit ''y'') (script (online steady) (submit ''x'') fresh)) =
     Some ''ok'' \<and>
   gateway_calls (script (online steady) (submit ''y'') (script (online steady) (submit ''x'') fresh)) =
     gateway_calls (script (online steady) (submit ''x'') fresh) @
     [analysis_prompt ''y'' default_image_info, case_studies_prompt ''ok'',
      critical_thinking_prompt ''ok'', abstract_concepts_prompt ''ok'']"
proof -
  have a: "button (submit ''y'')" and b: "feedback_input (submit ''y'') \<noteq> []"
    by (simp_all add: submit_def)
  have c: "fst (analyze_feedback (Some ''y'') default_image_info
      (configure (online steady) (script (online steady) (submit ''x'') fresh))) = ''ok''"
    by (simp add: analyze_feedback_def gateway_reply configure_model online_def steady_def)
  show ?thesis
    using a b c
      resubmit_replaces_result [OF a b, of "online steady" "submit ''x''" fresh]
    by (simp add: submit_def model_unavailable_def response_error_def)
qed

subsection \<open>The first stage on empty text\<close>

text \<open>
  C10: for an empty transcribed text, and for \<open>None\<close>, \<open>analyze_feedback\<close> returns exactly
  "No transcribed text to analyze." and leaves the state as it was: no prompt is built, the
  Gateway is not called and no request is made, whatever the image information and whether
  or not a model handle exists.
\<close>

theorem analyze_feedback_empty:
  "analyze_feedback (Some []) image_info s = (''No transcribed text to analyze.'', s) \<and>
   analyze_feedback None image_info s = (''No transcribed text to analyze.'', s) \<and>
   gateway_calls (snd (analyze_feedback (Some []) image_info s)) = gateway_calls s \<and>
   requests (snd (analyze_feedback (Some []) image_info s)) = requests s"
  by (simp add: analyze_feedback_def no_text_def)


end
